theory Spec2Isabelle
  imports Complex_Main "HOL-Library.Word"
begin

section \<open>The stereo SLAM node of the ORB-SLAM3 ROS 2 wrapper\<close>

text \<open>
  This theory embeds \<^verbatim>\<open>src/orb_slam3_ros2_wrapper/src/Stereo/stereo-slam-node.cpp\<close>:
  the constructor and the seven callbacks of \<^verbatim>\<open>StereoSlamNode\<close>.

  \<^item> The node object is a record of its member variables. A callback takes the node and the
    state of the tracking engine behind \<^verbatim>\<open>interface_\<close> and returns what it sent to the
    middleware (a list of events, in program order), the node and the engine afterwards.
  \<^item> The tracking engine (\<^verbatim>\<open>ORBSLAM3Interface\<close>) is not part of the source file. It is a
    parameter: a record of functions over an engine state of any type.
  \<^item> Messages that the node hands on without looking inside are type parameters.
  \<^item> Floating-point numbers are only stored and copied by the callbacks, never computed with
    (the one division, in the frequency report, is kept as its two operands), so a scalar is
    a \<open>real\<close> standing for the value it denotes.
  \<^item> A callback runs from its first line to its last without another callback in between.
  \<^item> Plain diagnostics (\<^verbatim>\<open>RCLCPP_INFO\<close>, \<^verbatim>\<open>RCLCPP_DEBUG_STREAM\<close>, \<^verbatim>\<open>std::cout\<close>) read
    no state that they change and are left out, except the throttled warning of
    \<^verbatim>\<open>OdomCallback\<close> and the frequency report of \<^verbatim>\<open>publishMapData\<close>.
\<close>

subsection \<open>Messages\<close>

text \<open>Clock readings and stamps, in nanoseconds.\<close>

type_synonym time = nat

record Header =
  stamp :: time
  frame_id :: string

datatype Vector3 = Vector3 real real real

datatype Quaternion = Quaternion real real real real

datatype Point = Point real real real

text \<open>\<^verbatim>\<open>Eigen::Vector3f\<close>, with its accessors.\<close>

datatype Vector3f = Vector3f real real real

fun v_x :: "Vector3f \<Rightarrow> real" where
  "v_x (Vector3f a b c) = a"

fun v_y :: "Vector3f \<Rightarrow> real" where
  "v_y (Vector3f a b c) = b"

fun v_z :: "Vector3f \<Rightarrow> real" where
  "v_z (Vector3f a b c) = c"

record Transform =
  translation :: Vector3
  rotation :: Quaternion

record TransformStamped =
  tf_header :: Header
  child_frame_id :: string
  transform :: Transform

record Pose =
  position :: Point
  orientation :: Quaternion

record PoseStamped =
  ps_header :: Header
  ps_pose :: Pose

text \<open>
  \<^verbatim>\<open>sensor_msgs::msg::Image\<close> and \<^verbatim>\<open>sensor_msgs::msg::PointCloud2\<close>, with the fields the
  node reads and the payload bytes.
\<close>

record Image =
  img_header :: Header
  img_data :: "8 word list"

record PointCloud2 =
  pc_header :: Header
  pc_height :: nat
  pc_width :: nat
  pc_data :: "8 word list"

text \<open>
  \<^verbatim>\<open>slam_msgs::msg::MapPoint\<close>: the handler of the landmarks query sets the three
  coordinates of \<open>position\<close> of a fresh message and nothing else.
\<close>

record MapPointMsg =
  mp_position :: Point

text \<open>
  The default-constructed \<^verbatim>\<open>geometry_msgs::msg::TransformStamped\<close>: stamp zero, empty frame
  names, zero translation and the unit quaternion, which are the defaults of the message
  definitions.
\<close>

definition default_Header :: Header where
  "default_Header = \<lparr>stamp = 0, frame_id = []\<rparr>"

definition default_TransformStamped :: TransformStamped where
  "default_TransformStamped =
     \<lparr>tf_header = default_Header, child_frame_id = [],
      transform = \<lparr>translation = Vector3 0 0 0, rotation = Quaternion 0 0 0 1\<rparr>\<rparr>"

subsection \<open>Service requests and responses\<close>

text \<open>
  \<^verbatim>\<open>slam_msgs::srv::GetMap\<close>: the request carries \<open>tracked_points\<close> and
  \<open>kf_id_for_landmarks\<close> (of a type \<open>'k\<close> fixed by the service definition), the response
  a \<^verbatim>\<open>MapData\<close> message (type \<open>'md\<close>).
\<close>

record 'k GetMap_Request =
  tracked_points :: bool
  kf_id_for_landmarks :: 'k

record 'md GetMap_Response =
  data :: 'md

record GetLandmarksInView_Request =
  pose :: Pose

record GetLandmarksInView_Response =
  map_points :: "MapPointMsg list"

subsection \<open>The tracking engine\<close>

text \<open>
  The methods of \<^verbatim>\<open>interface_\<close> that the node calls, over an engine state \<open>'e\<close>.
  An argument passed by reference and filled by the engine is a result. For
  \<^verbatim>\<open>tfMapOdom_\<close>, a member that outlives the call, the value before the call is an
  argument too; the other outputs are fresh locals of the caller. \<^verbatim>\<open>trackStereo\<close> also
  fills the pose \<^verbatim>\<open>Tcw\<close>, a local that \<^verbatim>\<open>StereoCallback\<close> never reads.
  \<^verbatim>\<open>mapDataToMsg\<close> is called with three arguments by the timer and with four by the
  service: the last argument is optional.
  \<open>'mp\<close> is \<^verbatim>\<open>ORB_SLAM3::MapPoint *\<close>, a pointer into the engine's map, so reading a
  landmark's position reads the engine's state.
\<close>

record ('e, 'imu, 'odom, 'md, 'k, 'mp) ORBSLAM3Interface =
  handleIMU :: "'imu \<Rightarrow> 'e \<Rightarrow> 'e"
  getMapToOdomTF :: "'odom \<Rightarrow> TransformStamped \<Rightarrow> 'e \<Rightarrow> TransformStamped \<times> 'e"
  trackStereo :: "Image \<Rightarrow> Image \<Rightarrow> 'e \<Rightarrow> bool \<times> 'e"
  getDirectMapToRobotTF :: "Header \<Rightarrow> TransformStamped \<Rightarrow> 'e \<Rightarrow> TransformStamped \<times> 'e"
  getCurrentMapPoints :: "'e \<Rightarrow> PointCloud2 \<times> 'e"
  mapDataToMsg :: "bool \<Rightarrow> bool \<Rightarrow> 'k option \<Rightarrow> 'e \<Rightarrow> 'md \<times> 'e"
  mapPointsVisibleFromPose :: "Pose \<Rightarrow> int \<Rightarrow> real \<Rightarrow> real \<Rightarrow> 'e \<Rightarrow> 'mp list \<times> 'e"
  GetWorldPos :: "'e \<Rightarrow> 'mp \<Rightarrow> Vector3f"
  vector3fORBToROS :: "Vector3f \<Rightarrow> Vector3f"
  MapPointsToPCL :: "'e \<Rightarrow> 'mp list \<Rightarrow> PointCloud2"

subsection \<open>What the node sends\<close>

text \<open>
  One constructor per output channel of the node: the transform broadcaster, the four
  publishers, the throttled warning (with the clock reading at which it was let through)
  and the frequency report. The report prints
  \<^verbatim>\<open>frequency_tracker_count_ / (now - frequency_tracker_clock_)\<close>; the event keeps the
  numerator and the elapsed time, so no floating-point division is modelled.
\<close>

datatype 'md event =
    SendTransform TransformStamped
  | PublishMapData 'md
  | PublishMapPoints PointCloud2
  | PublishVisibleLandmarks PointCloud2
  | PublishVisibleLandmarksPose PoseStamped
  | WarnOdometryIgnored time
  | InfoTrackingFrequency int int

subsection \<open>The node\<close>

text \<open>
  The member variables that the callbacks read or write, named as in the source without
  the trailing underscore (which Isabelle does not allow). The members are declared in
  \<^verbatim>\<open>stereo-slam-node.hpp\<close>, which is not part of the source: the counter is taken as an
  unbounded integer. \<open>warn_last_logged\<close> is the static variable of the
  \<^verbatim>\<open>RCLCPP_WARN_THROTTLE\<close> call site.
\<close>

record StereoSlamNode =
  rosViz :: bool
  robot_base_frame_id :: string
  global_frame :: string
  odom_frame_id :: string
  no_odometry_mode :: bool
  publish_tf :: bool
  map_data_publish_frequency :: int
  landmark_publish_frequency :: int
  isTracked :: bool
  frequency_tracker_count :: int
  frequency_tracker_clock :: time
  tfMapOdom :: TransformStamped
  warn_last_logged :: time

text \<open>
  The parameters that the constructor copies into the members above, with the defaults it
  declares for them. The topic names, the viewer flag and the robot offsets go to the
  subscriptions and to the engine only.
\<close>

record Parameters =
  p_ros_visualization :: bool
  p_robot_base_frame :: string
  p_global_frame :: string
  p_odom_frame :: string
  p_no_odometry_mode :: bool
  p_publish_tf :: bool
  p_map_data_publish_frequency :: int
  p_landmark_publish_frequency :: int

definition default_Parameters :: Parameters where
  "default_Parameters =
     \<lparr>p_ros_visualization = True, p_robot_base_frame = ''base_link'',
      p_global_frame = ''map'', p_odom_frame = ''odom'',
      p_no_odometry_mode = True, p_publish_tf = True,
      p_map_data_publish_frequency = 1000, p_landmark_publish_frequency = 1000\<rparr>"

text \<open>
  Modelled from the spec: the initial values of the members that the constructor leaves to
  their declarations in the header, which is not part of the source. The spec has the
  tracking flag false until a tracking call succeeds; \<^verbatim>\<open>tfMapOdom_\<close> is not assigned by
  the constructor and so is default-constructed; the throttle has not let a warning
  through yet. The constructor itself sets the counter to zero and reads the clock.
\<close>

definition StereoSlamNode_ctor :: "Parameters \<Rightarrow> time \<Rightarrow> StereoSlamNode" where
  "StereoSlamNode_ctor p now =
     \<lparr>rosViz = p_ros_visualization p,
      robot_base_frame_id = p_robot_base_frame p,
      global_frame = p_global_frame p,
      odom_frame_id = p_odom_frame p,
      no_odometry_mode = p_no_odometry_mode p,
      publish_tf = p_publish_tf p,
      map_data_publish_frequency = p_map_data_publish_frequency p,
      landmark_publish_frequency = p_landmark_publish_frequency p,
      isTracked = False,
      frequency_tracker_count = 0,
      frequency_tracker_clock = now,
      tfMapOdom = default_TransformStamped,
      warn_last_logged = 0\<rparr>"

subsection \<open>The callbacks\<close>

definition ImuCallback ::
  "('e, 'imu, 'odom, 'md, 'k, 'mp) ORBSLAM3Interface \<Rightarrow> 'imu \<Rightarrow> StereoSlamNode \<times> 'e
     \<Rightarrow> 'md event list \<times> StereoSlamNode \<times> 'e" where
  "ImuCallback iface msgIMU = (\<lambda>(node, e). ([], node, handleIMU iface msgIMU e))"

text \<open>The duration given at the call site of the throttled warning, 4000 ms.\<close>

definition throttle_period :: time where
  "throttle_period = 4000 * 1000000"

text \<open>
  Modelled from the spec: \<^verbatim>\<open>RCLCPP_WARN_THROTTLE(logger, clock, 4000, msg)\<close> is a macro of
  the middleware and not part of the source. The spec: warn at most once per 4 seconds.
  The macro keeps the clock reading of the last warning it let through and lets the next
  one through when the duration has passed since. The result is whether the warning is
  emitted, and the reading kept.
\<close>

definition WARN_THROTTLE :: "time \<Rightarrow> time \<Rightarrow> bool \<times> time" where
  "WARN_THROTTLE now last_logged =
     (if last_logged + throttle_period \<le> now then (True, now) else (False, last_logged))"

definition OdomCallback ::
  "('e, 'imu, 'odom, 'md, 'k, 'mp) ORBSLAM3Interface \<Rightarrow> 'odom \<Rightarrow> time \<Rightarrow> StereoSlamNode \<times> 'e
     \<Rightarrow> 'md event list \<times> StereoSlamNode \<times> 'e" where
  "OdomCallback iface msgOdom now = (\<lambda>(node, e).
     if \<not> no_odometry_mode node \<and> publish_tf node then
       (let (tf, e') = getMapToOdomTF iface msgOdom (tfMapOdom node) e
        in ([], node\<lparr>tfMapOdom := tf\<rparr>, e'))
     else
       (let (emit, logged) = WARN_THROTTLE now (warn_last_logged node)
        in (if emit then [WarnOdometryIgnored now] else [],
            node\<lparr>warn_last_logged := logged\<rparr>, e)))"

definition StereoCallback ::
  "('e, 'imu, 'odom, 'md, 'k, 'mp) ORBSLAM3Interface \<Rightarrow> Image \<Rightarrow> Image \<Rightarrow> StereoSlamNode \<times> 'e
     \<Rightarrow> 'md event list \<times> StereoSlamNode \<times> 'e" where
  "StereoCallback iface msgLeft msgRight = (\<lambda>(node, e).
     let (tracked, e1) = trackStereo iface msgLeft msgRight e in
     if tracked then
       (let node1 = node\<lparr>isTracked := True\<rparr> in
        let (out, node2, e2) =
              (if publish_tf node1 then
                 (let (node', e') =
                        (if no_odometry_mode node1 then
                           (let (tf, e') = getDirectMapToRobotTF iface
                                             (img_header msgLeft) (tfMapOdom node1) e1
                            in (node1\<lparr>tfMapOdom := tf\<rparr>, e'))
                         else (node1, e1))
                  in ([SendTransform (tfMapOdom node')], node', e'))
               else ([], node1, e1))
        in (out, node2\<lparr>frequency_tracker_count := frequency_tracker_count node2 + 1\<rparr>, e2))
     else ([], node, e1))"

definition publishMapPointCloud ::
  "('e, 'imu, 'odom, 'md, 'k, 'mp) ORBSLAM3Interface \<Rightarrow> StereoSlamNode \<times> 'e
     \<Rightarrow> 'md event list \<times> StereoSlamNode \<times> 'e" where
  "publishMapPointCloud iface = (\<lambda>(node, e).
     if isTracked node then
       (let (mapPCL, e') = getCurrentMapPoints iface e in
        if length (pc_data mapPCL) = 0 then ([], node, e')
        else ([PublishMapPoints mapPCL], node, e'))
     else ([], node, e))"

text \<open>
  \<open>t_report\<close> is the clock reading inside the frequency report, \<open>t_reset\<close> the next one,
  stored in \<^verbatim>\<open>frequency_tracker_clock_\<close>.
\<close>

definition publishMapData ::
  "('e, 'imu, 'odom, 'md, 'k, 'mp) ORBSLAM3Interface \<Rightarrow> time \<Rightarrow> time \<Rightarrow> StereoSlamNode \<times> 'e
     \<Rightarrow> 'md event list \<times> StereoSlamNode \<times> 'e" where
  "publishMapData iface t_report t_reset = (\<lambda>(node, e).
     if isTracked node then
       (let report = InfoTrackingFrequency (frequency_tracker_count node)
                       (int t_report - int (frequency_tracker_clock node));
            node1 = node\<lparr>frequency_tracker_clock := t_reset\<rparr>;
            node2 = node1\<lparr>frequency_tracker_count := 0\<rparr>;
            (mapDataMsg, e') = mapDataToMsg iface True False None e
        in ([report, PublishMapData mapDataMsg], node2, e'))
     else ([], node, e))"

text \<open>The two services return their response as well.\<close>

definition getMapServer ::
  "('e, 'imu, 'odom, 'md, 'k, 'mp) ORBSLAM3Interface \<Rightarrow> 'k GetMap_Request \<Rightarrow> StereoSlamNode \<times> 'e
     \<Rightarrow> 'md GetMap_Response \<times> 'md event list \<times> StereoSlamNode \<times> 'e" where
  "getMapServer iface request = (\<lambda>(node, e).
     let (mapDataMsg, e') = mapDataToMsg iface False (tracked_points request)
                              (Some (kf_id_for_landmarks request)) e
     in (\<lparr>data = mapDataMsg\<rparr>, [], node, e'))"

text \<open>
  The body of the loop over \<open>points\<close>: a fresh landmark message whose position is the
  converted world position of the point.
\<close>

definition landmark_of ::
  "('e, 'imu, 'odom, 'md, 'k, 'mp) ORBSLAM3Interface \<Rightarrow> 'e \<Rightarrow> 'mp \<Rightarrow> MapPointMsg" where
  "landmark_of iface e point =
     (let landmark_position = GetWorldPos iface e point;
          position = vector3fORBToROS iface landmark_position
      in \<lparr>mp_position = Point (v_x position) (v_y position) (v_z position)\<rparr>)"

text \<open>The loop itself: \<^verbatim>\<open>landmarks.push_back(landmark)\<close> for each point, in order.\<close>

fun push_landmarks ::
  "('e, 'imu, 'odom, 'md, 'k, 'mp) ORBSLAM3Interface \<Rightarrow> 'e \<Rightarrow> 'mp list \<Rightarrow> MapPointMsg list
     \<Rightarrow> MapPointMsg list" where
  "push_landmarks iface e [] landmarks = landmarks"
| "push_landmarks iface e (point # points) landmarks =
     push_landmarks iface e points (landmarks @ [landmark_of iface e point])"

definition getMapPointsInViewServer ::
  "('e, 'imu, 'odom, 'md, 'k, 'mp) ORBSLAM3Interface \<Rightarrow> GetLandmarksInView_Request \<Rightarrow> time
     \<Rightarrow> StereoSlamNode \<times> 'e
     \<Rightarrow> GetLandmarksInView_Response \<times> 'md event list \<times> StereoSlamNode \<times> 'e" where
  "getMapPointsInViewServer iface request now = (\<lambda>(node, e).
     let (points, e') = mapPointsVisibleFromPose iface (pose request) 1000 5.0 2.0 e;
         landmarks = push_landmarks iface e' points [];
         cloud = MapPointsToPCL iface e' points;
         pose_stamped = \<lparr>ps_header = \<lparr>stamp = now, frame_id = ''map''\<rparr>,
                         ps_pose = pose request\<rparr>
     in (\<lparr>map_points = landmarks\<rparr>,
         [PublishVisibleLandmarks cloud, PublishVisibleLandmarksPose pose_stamped],
         node, e'))"

subsection \<open>Executions\<close>

text \<open>
  What the middleware delivers to the node: a message on a subscription, a firing of a
  timer or a service request, with the clock readings that the callback takes.
\<close>

datatype ('imu, 'odom, 'k) input =
    Imu 'imu
  | Odom 'odom time
  | Stereo Image Image
  | MapDataTimer time time
  | MapPointsTimer
  | GetMap "'k GetMap_Request"
  | GetLandmarksInView GetLandmarksInView_Request time

text \<open>
  The callback bound to each input by the constructor. The timer of
  \<^verbatim>\<open>publishMapPointCloud\<close> is created only if \<^verbatim>\<open>rosViz_\<close> is set: without it the firing
  does not exist, and is a step that does nothing. The response of a service goes to its
  caller and is not part of the trace.
\<close>

definition dispatch ::
  "('e, 'imu, 'odom, 'md, 'k, 'mp) ORBSLAM3Interface \<Rightarrow> ('imu, 'odom, 'k) input
     \<Rightarrow> StereoSlamNode \<times> 'e \<Rightarrow> 'md event list \<times> StereoSlamNode \<times> 'e" where
  "dispatch iface x c =
     (case x of
        Imu msgIMU \<Rightarrow> ImuCallback iface msgIMU c
      | Odom msgOdom now \<Rightarrow> OdomCallback iface msgOdom now c
      | Stereo msgLeft msgRight \<Rightarrow> StereoCallback iface msgLeft msgRight c
      | MapDataTimer t_report t_reset \<Rightarrow> publishMapData iface t_report t_reset c
      | MapPointsTimer \<Rightarrow> (if rosViz (fst c) then publishMapPointCloud iface c else ([], c))
      | GetMap request \<Rightarrow> snd (getMapServer iface request c)
      | GetLandmarksInView request now \<Rightarrow> snd (getMapPointsInViewServer iface request now c))"

fun run ::
  "('e, 'imu, 'odom, 'md, 'k, 'mp) ORBSLAM3Interface \<Rightarrow> ('imu, 'odom, 'k) input list
     \<Rightarrow> StereoSlamNode \<times> 'e \<Rightarrow> 'md event list \<times> StereoSlamNode \<times> 'e" where
  "run iface [] c = ([], c)"
| "run iface (x # xs) c =
     (let (out, c') = dispatch iface x c;
          (outs, c'') = run iface xs c'
      in (out @ outs, c''))"

text \<open>
  The outputs that the tracking flag is said to gate: the two periodic publications and the
  transform broadcast.
\<close>

fun tracking_gated :: "'md event \<Rightarrow> bool" where
  "tracking_gated (SendTransform tf) = True"
| "tracking_gated (PublishMapData m) = True"
| "tracking_gated (PublishMapPoints pcl) = True"
| "tracking_gated ev = False"

fun is_Odom :: "('imu, 'odom, 'k) input \<Rightarrow> bool" where
  "is_Odom (Odom msgOdom now) = True"
| "is_Odom x = False"

fun is_MapDataTimer :: "('imu, 'odom, 'k) input \<Rightarrow> bool" where
  "is_MapDataTimer (MapDataTimer t_report t_reset) = True"
| "is_MapDataTimer x = False"

text \<open>The clock readings of the warnings in a trace, in order.\<close>

fun warn_times :: "'md event list \<Rightarrow> time list" where
  "warn_times [] = []"
| "warn_times (WarnOdometryIgnored t # evs) = t # warn_times evs"
| "warn_times (ev # evs) = warn_times evs"

text \<open>
  Each reading of the list is at least the throttle period after the one before it, the
  first after \<open>t0\<close>.
\<close>

fun spaced :: "time \<Rightarrow> time list \<Rightarrow> bool" where
  "spaced t0 [] = True"
| "spaced t0 (t # ts) = (t0 + throttle_period \<le> t \<and> spaced t ts)"

text \<open>The number of stereo pairs of an execution on which the engine reports tracking.\<close>

fun tracked_count ::
  "('e, 'imu, 'odom, 'md, 'k, 'mp) ORBSLAM3Interface \<Rightarrow> ('imu, 'odom, 'k) input list
     \<Rightarrow> StereoSlamNode \<times> 'e \<Rightarrow> nat" where
  "tracked_count iface [] c = 0"
| "tracked_count iface (x # xs) c =
     (case x of
        Stereo msgLeft msgRight \<Rightarrow>
          (if fst (trackStereo iface msgLeft msgRight (snd c)) then 1 else 0)
      | _ \<Rightarrow> 0)
     + tracked_count iface xs (snd (dispatch iface x c))"

subsection \<open>A small engine for concrete executions\<close>

text \<open>
  An engine whose state is the number of stereo pairs it has been given. It tracks a pair
  when both images have data; its map has one point less than the pairs it has seen; the
  odometry sample is the transform it answers with; a map-data message echoes the
  arguments of the request.
\<close>

type_synonym toy_map_data = "bool \<times> bool \<times> int list option \<times> nat"

definition toy_cloud :: "nat \<Rightarrow> PointCloud2" where
  "toy_cloud n = \<lparr>pc_header = default_Header, pc_height = 1, pc_width = n,
                   pc_data = replicate n 0\<rparr>"

fun toy_ORBToROS :: "Vector3f \<Rightarrow> Vector3f" where
  "toy_ORBToROS (Vector3f a b c) = Vector3f c (- a) (- b)"

definition toy_engine ::
  "(nat, unit, TransformStamped, toy_map_data, int list, Vector3f) ORBSLAM3Interface" where
  "toy_engine =
     \<lparr>handleIMU = (\<lambda>m e. e),
      getMapToOdomTF = (\<lambda>odom tf e. (odom, e)),
      trackStereo = (\<lambda>l r e. (img_data l \<noteq> [] \<and> img_data r \<noteq> [], Suc e)),
      getDirectMapToRobotTF = (\<lambda>h tf e. (tf\<lparr>tf_header := h\<rparr>, e)),
      getCurrentMapPoints = (\<lambda>e. (toy_cloud (e - 1), e)),
      mapDataToMsg = (\<lambda>a b k e. ((a, b, k, e), e)),
      mapPointsVisibleFromPose = (\<lambda>p n d a e. (replicate (e - 1) (Vector3f 1 2 3), e)),
      GetWorldPos = (\<lambda>e p. p),
      vector3fORBToROS = toy_ORBToROS,
      MapPointsToPCL = (\<lambda>e ps. toy_cloud (length ps))\<rparr>"

definition toy_image :: "8 word list \<Rightarrow> Image" where
  "toy_image bytes = \<lparr>img_header = \<lparr>stamp = 7, frame_id = ''camera''\<rparr>, img_data = bytes\<rparr>"

definition toy_odom :: TransformStamped where
  "toy_odom =
     \<lparr>tf_header = \<lparr>stamp = 5, frame_id = ''map''\<rparr>, child_frame_id = ''odom'',
      transform = \<lparr>translation = Vector3 1 0 0, rotation = Quaternion 0 0 0 1\<rparr>\<rparr>"

text \<open>A node in composed mode (external odometry in use) that publishes transforms.\<close>

definition composed_node :: StereoSlamNode where
  "composed_node = StereoSlamNode_ctor (default_Parameters\<lparr>p_no_odometry_mode := False\<rparr>) 0"

text \<open>A node with the default parameters: direct mode.\<close>

definition direct_node :: StereoSlamNode where
  "direct_node = StereoSlamNode_ctor default_Parameters 0"

text \<open>A landmarks-in-view request, for a pose at the origin.\<close>

definition toy_request :: GetLandmarksInView_Request where
  "toy_request = \<lparr>pose = \<lparr>position = Point 0 0 0, orientation = Quaternion 0 0 0 1\<rparr>\<rparr>"

section \<open>Properties\<close>

subsection \<open>What each callback sends and how it leaves the node\<close>

lemma push_landmarks_map:
  "push_landmarks iface e points landmarks = landmarks @ map (landmark_of iface e) points"
  by (induction points arbitrary: landmarks) simp_all

lemma landmark_of_coordinates:
  "landmark_of iface e point =
     (case vector3fORBToROS iface (GetWorldPos iface e point) of
        Vector3f a b c \<Rightarrow> \<lparr>mp_position = Point a b c\<rparr>)"
  by (cases "vector3fORBToROS iface (GetWorldPos iface e point)")
     (simp add: landmark_of_def)

lemma StereoCallback_out:
  "fst (StereoCallback iface msgLeft msgRight (node, e)) =
     (if fst (trackStereo iface msgLeft msgRight e) \<and> publish_tf node then
        [SendTransform
           (if no_odometry_mode node then
              fst (getDirectMapToRobotTF iface (img_header msgLeft) (tfMapOdom node)
                     (snd (trackStereo iface msgLeft msgRight e)))
            else tfMapOdom node)]
      else [])"
  by (cases "trackStereo iface msgLeft msgRight e")
     (simp add: StereoCallback_def Let_def split: prod.splits)

lemma StereoCallback_node:
  "fst (snd (StereoCallback iface msgLeft msgRight (node, e))) =
     (if fst (trackStereo iface msgLeft msgRight e) then
        node\<lparr>isTracked := True,
             tfMapOdom :=
               (if publish_tf node \<and> no_odometry_mode node then
                  fst (getDirectMapToRobotTF iface (img_header msgLeft) (tfMapOdom node)
                         (snd (trackStereo iface msgLeft msgRight e)))
                else tfMapOdom node),
             frequency_tracker_count := frequency_tracker_count node + 1\<rparr>
      else node)"
  by (cases "trackStereo iface msgLeft msgRight e")
     (simp add: StereoCallback_def Let_def split: prod.splits)

lemma OdomCallback_out:
  "fst (OdomCallback iface msgOdom now (node, e)) =
     (if (no_odometry_mode node \<or> \<not> publish_tf node)
         \<and> warn_last_logged node + throttle_period \<le> now
      then [WarnOdometryIgnored now] else [])"
  by (simp add: OdomCallback_def WARN_THROTTLE_def split: prod.splits)

lemma OdomCallback_node:
  "fst (snd (OdomCallback iface msgOdom now (node, e))) =
     (if \<not> no_odometry_mode node \<and> publish_tf node then
        node\<lparr>tfMapOdom := fst (getMapToOdomTF iface msgOdom (tfMapOdom node) e)\<rparr>
      else node\<lparr>warn_last_logged :=
                  (if warn_last_logged node + throttle_period \<le> now then now
                   else warn_last_logged node)\<rparr>)"
  by (simp add: OdomCallback_def WARN_THROTTLE_def split: prod.splits)

lemma publishMapData_out:
  "fst (publishMapData iface t_report t_reset (node, e)) =
     (if isTracked node then
        [InfoTrackingFrequency (frequency_tracker_count node)
           (int t_report - int (frequency_tracker_clock node)),
         PublishMapData (fst (mapDataToMsg iface True False None e))]
      else [])"
  by (simp add: publishMapData_def Let_def split: prod.splits)

lemma publishMapData_node:
  "fst (snd (publishMapData iface t_report t_reset (node, e))) =
     (if isTracked node then
        node\<lparr>frequency_tracker_clock := t_reset, frequency_tracker_count := 0\<rparr>
      else node)"
  by (simp add: publishMapData_def Let_def split: prod.splits)

lemma publishMapPointCloud_out:
  "fst (publishMapPointCloud iface (node, e)) =
     (if isTracked node \<and> pc_data (fst (getCurrentMapPoints iface e)) \<noteq> [] then
        [PublishMapPoints (fst (getCurrentMapPoints iface e))]
      else [])"
  by (simp add: publishMapPointCloud_def split: prod.splits)

lemma publishMapPointCloud_node:
  "fst (snd (publishMapPointCloud iface (node, e))) = node"
  by (simp add: publishMapPointCloud_def split: prod.splits)

lemma ImuCallback_out_node:
  "fst (ImuCallback iface msgIMU (node, e)) = []
   \<and> fst (snd (ImuCallback iface msgIMU (node, e))) = node"
  by (simp add: ImuCallback_def)

lemma getMapServer_out_node:
  "fst (snd (getMapServer iface request (node, e))) = []
   \<and> fst (snd (snd (getMapServer iface request (node, e)))) = node"
  by (simp add: getMapServer_def split: prod.splits)

lemma getMapPointsInViewServer_out_node:
  "filter tracking_gated (fst (snd (getMapPointsInViewServer iface request now (node, e)))) = []
   \<and> warn_times (fst (snd (getMapPointsInViewServer iface request now (node, e)))) = []
   \<and> fst (snd (snd (getMapPointsInViewServer iface request now (node, e)))) = node"
  by (simp add: getMapPointsInViewServer_def split: prod.splits)

lemmas callback_facts =
  StereoCallback_out StereoCallback_node OdomCallback_out OdomCallback_node
  publishMapData_out publishMapData_node publishMapPointCloud_out publishMapPointCloud_node
  ImuCallback_out_node getMapServer_out_node getMapPointsInViewServer_out_node

subsection \<open>One step of an execution\<close>

lemma dispatch_config:
  "no_odometry_mode (fst (snd (dispatch iface x c))) = no_odometry_mode (fst c)
   \<and> publish_tf (fst (snd (dispatch iface x c))) = publish_tf (fst c)
   \<and> rosViz (fst (snd (dispatch iface x c))) = rosViz (fst c)
   \<and> global_frame (fst (snd (dispatch iface x c))) = global_frame (fst c)"
  by (cases c; cases x) (simp_all add: dispatch_def callback_facts)

lemma dispatch_isTracked_mono:
  "isTracked (fst c) \<Longrightarrow> isTracked (fst (snd (dispatch iface x c)))"
  by (cases c; cases x) (simp_all add: dispatch_def callback_facts)

lemma dispatch_untracked_no_gated:
  "\<not> isTracked (fst (snd (dispatch iface x c)))
     \<Longrightarrow> filter tracking_gated (fst (dispatch iface x c)) = []"
  by (cases c; cases x) (simp_all add: dispatch_def callback_facts split: if_splits)

lemma dispatch_warn:
  "warn_times (fst (dispatch iface x c)) =
     (if warn_last_logged (fst (snd (dispatch iface x c))) = warn_last_logged (fst c) then []
      else [warn_last_logged (fst (snd (dispatch iface x c)))])
   \<and> (warn_last_logged (fst (snd (dispatch iface x c))) = warn_last_logged (fst c)
       \<or> warn_last_logged (fst c) + throttle_period
            \<le> warn_last_logged (fst (snd (dispatch iface x c))))"
  by (cases c; cases x)
     (simp_all add: dispatch_def callback_facts throttle_period_def)

lemma dispatch_count:
  "\<not> is_MapDataTimer x \<Longrightarrow>
   frequency_tracker_count (fst (snd (dispatch iface x c)))
     = frequency_tracker_count (fst c) + int (tracked_count iface [x] c)
   \<and> frequency_tracker_clock (fst (snd (dispatch iface x c))) = frequency_tracker_clock (fst c)"
  by (cases c; cases x) (simp_all add: dispatch_def callback_facts)

lemma dispatch_tf:
  "\<not> is_Odom x \<Longrightarrow> \<not> no_odometry_mode (fst c) \<Longrightarrow>
   tfMapOdom (fst (snd (dispatch iface x c))) = tfMapOdom (fst c)"
  by (cases c; cases x) (simp_all add: dispatch_def callback_facts)

subsection \<open>Whole executions\<close>

lemma run_Cons:
  "run iface (x # xs) c =
     (fst (dispatch iface x c) @ fst (run iface xs (snd (dispatch iface x c))),
      snd (run iface xs (snd (dispatch iface x c))))"
  by (simp split: prod.splits)

lemma run_snd_Cons:
  "snd (run iface (x # xs) c) = snd (run iface xs (snd (dispatch iface x c)))"
  by (simp add: run_Cons del: run.simps(2))

lemma run_fst_Cons:
  "fst (run iface (x # xs) c)
     = fst (dispatch iface x c) @ fst (run iface xs (snd (dispatch iface x c)))"
  by (simp add: run_Cons del: run.simps(2))

declare run.simps(2) [simp del]

lemma run_isTracked_mono:
  "isTracked (fst c) \<Longrightarrow> isTracked (fst (snd (run iface xs c)))"
proof (induction xs arbitrary: c)
  case Nil
  then show ?case by simp
next
  case (Cons x xs)
  from Cons.prems have "isTracked (fst (snd (dispatch iface x c)))"
    by (rule dispatch_isTracked_mono)
  then have "isTracked (fst (snd (run iface xs (snd (dispatch iface x c)))))"
    by (rule Cons.IH)
  then show ?case by (simp add: run_snd_Cons)
qed

lemma run_untracked_no_gated:
  "\<not> isTracked (fst (snd (run iface xs c)))
     \<Longrightarrow> filter tracking_gated (fst (run iface xs c)) = []"
proof (induction xs arbitrary: c)
  case Nil
  then show ?case by simp
next
  case (Cons x xs)
  let ?c' = "snd (dispatch iface x c)"
  from Cons.prems have later: "\<not> isTracked (fst (snd (run iface xs ?c')))"
    by (simp add: run_snd_Cons)
  have "\<not> isTracked (fst ?c')"
  proof
    assume "isTracked (fst ?c')"
    then have "isTracked (fst (snd (run iface xs ?c')))"
      by (rule run_isTracked_mono)
    with later show False by simp
  qed
  then have "filter tracking_gated (fst (dispatch iface x c)) = []"
    by (rule dispatch_untracked_no_gated)
  moreover from later have "filter tracking_gated (fst (run iface xs ?c')) = []"
    by (rule Cons.IH)
  ultimately show ?case by (simp add: run_fst_Cons)
qed

lemma warn_times_append: "warn_times (xs @ ys) = warn_times xs @ warn_times ys"
  by (induction xs rule: warn_times.induct) simp_all

lemma run_warn_spaced:
  "spaced (warn_last_logged (fst c)) (warn_times (fst (run iface xs c)))"
proof (induction xs arbitrary: c)
  case Nil
  then show ?case by simp
next
  case (Cons x xs)
  let ?c' = "snd (dispatch iface x c)"
  have IH: "spaced (warn_last_logged (fst ?c')) (warn_times (fst (run iface xs ?c')))"
    by (rule Cons.IH)
  show ?case
  proof (cases "warn_last_logged (fst ?c') = warn_last_logged (fst c)")
    case True
    with dispatch_warn [of iface x c] have "warn_times (fst (dispatch iface x c)) = []"
      by simp
    with IH True show ?thesis by (simp add: run_fst_Cons warn_times_append)
  next
    case False
    with dispatch_warn [of iface x c]
    have "warn_times (fst (dispatch iface x c)) = [warn_last_logged (fst ?c')]"
      and "warn_last_logged (fst c) + throttle_period \<le> warn_last_logged (fst ?c')"
      by simp_all
    with IH show ?thesis by (simp add: run_fst_Cons warn_times_append)
  qed
qed

lemma run_count:
  "\<forall>x \<in> set xs. \<not> is_MapDataTimer x \<Longrightarrow>
   frequency_tracker_count (fst (snd (run iface xs c)))
     = frequency_tracker_count (fst c) + int (tracked_count iface xs c)
   \<and> frequency_tracker_clock (fst (snd (run iface xs c))) = frequency_tracker_clock (fst c)"
proof (induction xs arbitrary: c)
  case Nil
  then show ?case by simp
next
  case (Cons x xs)
  let ?c' = "snd (dispatch iface x c)"
  from Cons.prems have "\<not> is_MapDataTimer x" and rest: "\<forall>x \<in> set xs. \<not> is_MapDataTimer x"
    by simp_all
  from dispatch_count [OF this(1), of iface c] Cons.IH [OF rest, of ?c']
  show ?case by (simp add: run_snd_Cons)
qed

lemma run_config:
  "no_odometry_mode (fst (snd (run iface xs c))) = no_odometry_mode (fst c)
   \<and> publish_tf (fst (snd (run iface xs c))) = publish_tf (fst c)
   \<and> rosViz (fst (snd (run iface xs c))) = rosViz (fst c)
   \<and> global_frame (fst (snd (run iface xs c))) = global_frame (fst c)"
proof (induction xs arbitrary: c)
  case Nil
  then show ?case by simp
next
  case (Cons x xs)
  from Cons.IH [of "snd (dispatch iface x c)"] dispatch_config [of iface x c]
  show ?case by (simp add: run_snd_Cons)
qed

lemma run_tf:
  "\<forall>x \<in> set xs. \<not> is_Odom x \<Longrightarrow> \<not> no_odometry_mode (fst c) \<Longrightarrow>
   tfMapOdom (fst (snd (run iface xs c))) = tfMapOdom (fst c)"
proof (induction xs arbitrary: c)
  case Nil
  then show ?case by simp
next
  case (Cons x xs)
  let ?c' = "snd (dispatch iface x c)"
  from Cons.prems have x: "\<not> is_Odom x" and rest: "\<forall>x \<in> set xs. \<not> is_Odom x"
    by simp_all
  have mode: "\<not> no_odometry_mode (fst ?c')"
    using Cons.prems(2) dispatch_config [of iface x c] by simp
  from Cons.IH [OF rest mode] dispatch_tf [OF x Cons.prems(2), of iface]
  show ?case by (simp add: run_snd_Cons)
qed

subsection \<open>Unfolding for concrete executions\<close>

lemmas callback_defs =
  ImuCallback_def OdomCallback_def StereoCallback_def publishMapPointCloud_def
  publishMapData_def getMapServer_def getMapPointsInViewServer_def dispatch_def
  WARN_THROTTLE_def throttle_period_def

lemmas toy_defs =
  toy_engine_def toy_image_def toy_odom_def toy_cloud_def composed_node_def direct_node_def
  StereoSlamNode_ctor_def default_Parameters_def default_TransformStamped_def
  default_Header_def

section \<open>The claims\<close>

subsection \<open>Transform broadcast in composed mode\<close>

text \<open>
  Claim C1, as stated, fails. On a node in composed mode that publishes transforms, an
  odometry sample makes the node send nothing, so no broadcast is triggered by it; and a
  stereo pair that the engine tracks makes the node broadcast a transform, without any
  odometry sample.
\<close>

theorem C1_odometry_sample_not_broadcast_counterexample:
  "\<not> no_odometry_mode composed_node \<and> publish_tf composed_node
   \<and> (fst (OdomCallback toy_engine toy_odom 5 (composed_node, 0)) :: toy_map_data event list) = []
   \<and> fst (trackStereo toy_engine (toy_image [1]) (toy_image [2]) 0)
   \<and> (fst (StereoCallback toy_engine (toy_image [1]) (toy_image [2]) (composed_node, 0))
        :: toy_map_data event list) = [SendTransform default_TransformStamped]"
  by (simp add: callback_defs toy_defs)

text \<open>
  Claim C1, amended. In composed mode with transform publication enabled, every odometry
  sample produces a map-to-odom transform, which becomes the cached transform; the odometry
  callback itself sends nothing. The broadcast is made by the stereo callback: a tracked
  pair broadcasts the cached transform, an untracked pair broadcasts nothing.
\<close>

theorem C1_composed_mode_caches_then_broadcasts:
  assumes "\<not> no_odometry_mode node" and "publish_tf node"
  shows "OdomCallback iface msgOdom now (node, e) =
           ([], node\<lparr>tfMapOdom := fst (getMapToOdomTF iface msgOdom (tfMapOdom node) e)\<rparr>,
            snd (getMapToOdomTF iface msgOdom (tfMapOdom node) e))
         \<and> fst (StereoCallback iface msgLeft msgRight (node, e)) =
             (if fst (trackStereo iface msgLeft msgRight e)
              then [SendTransform (tfMapOdom node)] else [])"
  using assms by (simp add: OdomCallback_def StereoCallback_out split: prod.splits)

theorem C1_composed_mode_caches_then_broadcasts_witness:
  "\<not> no_odometry_mode composed_node \<and> publish_tf composed_node
   \<and> (OdomCallback toy_engine toy_odom 5 (composed_node, 0)
        :: toy_map_data event list \<times> StereoSlamNode \<times> nat)
       = ([], composed_node\<lparr>tfMapOdom := toy_odom\<rparr>, 0)
   \<and> (fst (StereoCallback toy_engine (toy_image [1]) (toy_image [2])
              (composed_node\<lparr>tfMapOdom := toy_odom\<rparr>, 0)) :: toy_map_data event list)
       = [SendTransform toy_odom]"
  using C1_composed_mode_caches_then_broadcasts [of composed_node toy_engine toy_odom 5 0]
        C1_composed_mode_caches_then_broadcasts
          [of "composed_node\<lparr>tfMapOdom := toy_odom\<rparr>" toy_engine toy_odom 5 0
              "toy_image [1]" "toy_image [2]"]
  by (simp add: toy_engine_def toy_image_def composed_node_def StereoSlamNode_ctor_def
        default_Parameters_def)

text \<open>
  Claim C9. In composed mode with transform publication enabled, a tracked stereo pair
  broadcasts the cached transform: after an odometry sample and any further inputs that
  are not odometry samples, it is the transform that the engine computed for that sample;
  on a node as constructed, after any inputs that are not odometry samples, it is the
  default-constructed transform (identity, empty frame names).
\<close>

theorem C9_tracking_broadcasts_cached_transform:
  fixes iface :: "('e, 'imu, 'odom, 'md, 'k, 'mp) ORBSLAM3Interface"
  assumes "\<not> no_odometry_mode node" and "publish_tf node"
    and "\<not> p_no_odometry_mode p" and "p_publish_tf p"
    and "\<forall>x \<in> set xs. \<not> is_Odom x"
  shows "(fst (trackStereo iface msgLeft msgRight
                (snd (snd (run iface xs (snd (OdomCallback iface msgOdom now (node, e)))))))
          \<longrightarrow> fst (StereoCallback iface msgLeft msgRight
                      (snd (run iface xs (snd (OdomCallback iface msgOdom now (node, e))))))
                = [SendTransform (fst (getMapToOdomTF iface msgOdom (tfMapOdom node) e))])
       \<and> (fst (trackStereo iface msgLeft msgRight
                  (snd (snd (run iface xs (StereoSlamNode_ctor p t0, e)))))
          \<longrightarrow> fst (StereoCallback iface msgLeft msgRight
                      (snd (run iface xs (StereoSlamNode_ctor p t0, e))))
                = [SendTransform default_TransformStamped])"
proof -
  have broadcast: "fst (StereoCallback iface msgLeft msgRight (snd (run iface xs c)))
                     = [SendTransform (tfMapOdom (fst c))]"
    if "\<not> no_odometry_mode (fst c)" and "publish_tf (fst c)"
      and "fst (trackStereo iface msgLeft msgRight (snd (snd (run iface xs c))))"
    for c
  proof -
    obtain node' e' where c': "snd (run iface xs c) = (node', e')"
      by (cases "snd (run iface xs c)")
    from run_config [of iface xs c] run_tf [OF assms(5) that(1), of iface] that c'
    show ?thesis by (simp add: StereoCallback_out)
  qed
  let ?c1 = "snd (OdomCallback iface msgOdom now (node, e))"
  have "\<not> no_odometry_mode (fst ?c1)" and "publish_tf (fst ?c1)"
    and "tfMapOdom (fst ?c1) = fst (getMapToOdomTF iface msgOdom (tfMapOdom node) e)"
    using assms(1,2) by (simp_all add: OdomCallback_node)
  moreover have "\<not> no_odometry_mode (fst (StereoSlamNode_ctor p t0, e))"
    and "publish_tf (fst (StereoSlamNode_ctor p t0, e))"
    and "tfMapOdom (fst (StereoSlamNode_ctor p t0, e)) = default_TransformStamped"
    using assms(3,4) by (simp_all add: StereoSlamNode_ctor_def)
  ultimately show ?thesis
    using broadcast [of ?c1] broadcast [of "(StereoSlamNode_ctor p t0, e)"] by simp
qed

theorem C9_tracking_broadcasts_cached_transform_witness:
  "\<not> no_odometry_mode composed_node \<and> publish_tf composed_node
   \<and> \<not> p_no_odometry_mode (default_Parameters\<lparr>p_no_odometry_mode := False\<rparr>)
   \<and> p_publish_tf (default_Parameters\<lparr>p_no_odometry_mode := False\<rparr>)
   \<and> \<not> is_Odom (Imu () :: (unit, TransformStamped, int list) input)
   \<and> \<not> is_Odom (MapDataTimer 1 2 :: (unit, TransformStamped, int list) input)
   \<and> fst (trackStereo toy_engine (toy_image [1]) (toy_image [2])
            (snd (snd (run toy_engine [Imu (), MapDataTimer 1 2]
                         (snd (OdomCallback toy_engine toy_odom 5 (composed_node, 0)))))))
   \<and> fst (StereoCallback toy_engine (toy_image [1]) (toy_image [2])
            (snd (run toy_engine [Imu (), MapDataTimer 1 2]
                    (snd (OdomCallback toy_engine toy_odom 5 (composed_node, 0))))))
       = [SendTransform toy_odom]
   \<and> fst (StereoCallback toy_engine (toy_image [1]) (toy_image [2])
            (snd (run toy_engine [Imu (), MapDataTimer 1 2]
                    (StereoSlamNode_ctor (default_Parameters\<lparr>p_no_odometry_mode := False\<rparr>) 0,
                     0))))
       = [SendTransform default_TransformStamped]"
  using C9_tracking_broadcasts_cached_transform
          [of composed_node "default_Parameters\<lparr>p_no_odometry_mode := False\<rparr>"
              "[Imu (), MapDataTimer 1 2]" toy_engine "toy_image [1]" "toy_image [2]"
              toy_odom 5 0 0]
  by (simp add: toy_engine_def toy_image_def composed_node_def StereoSlamNode_ctor_def
        default_Parameters_def)

subsection \<open>The tracking flag\<close>

text \<open>
  Claim C2, as stated, fails in its last part. On a node as constructed (flag false), the
  first tracked stereo pair sets the flag; the landmark-cloud publisher then fires and
  sends nothing, because the cloud that the engine hands out is empty.
\<close>

theorem C2_landmark_publisher_silent_counterexample:
  "\<not> isTracked direct_node
   \<and> fst (trackStereo toy_engine (toy_image [1]) (toy_image [2]) 0)
   \<and> isTracked (fst (snd (StereoCallback toy_engine (toy_image [1]) (toy_image [2])
                             (direct_node, 0))))
   \<and> (fst (publishMapPointCloud toy_engine
              (snd (StereoCallback toy_engine (toy_image [1]) (toy_image [2]) (direct_node, 0))))
        :: toy_map_data event list) = []"
  by (simp add: callback_defs toy_defs)

text \<open>
  Claim C2, amended. As long as the tracking flag is false at the end of an execution, the
  execution contains no map-data publication, no landmark-cloud publication and no
  transform broadcast. Once a stereo pair has been tracked, the flag is set and stays set
  whatever comes after; a later firing of the map-data publisher then publishes, and a
  later firing of the landmark-cloud publisher publishes the fetched cloud when it is
  non-empty and nothing when it is empty.
\<close>

theorem C2_tracking_flag_gates_publishers:
  fixes iface :: "('e, 'imu, 'odom, 'md, 'k, 'mp) ORBSLAM3Interface"
  shows "(\<not> isTracked (fst (snd (run iface xs c)))
            \<longrightarrow> filter tracking_gated (fst (run iface xs c)) = [])
       \<and> (fst (trackStereo iface msgLeft msgRight e) \<longrightarrow>
            isTracked (fst (snd (run iface ys
              (snd (StereoCallback iface msgLeft msgRight (node, e))))))
          \<and> fst (publishMapData iface t1 t2
                   (snd (run iface ys (snd (StereoCallback iface msgLeft msgRight (node, e))))))
              = [InfoTrackingFrequency
                   (frequency_tracker_count (fst (snd (run iface ys
                      (snd (StereoCallback iface msgLeft msgRight (node, e)))))))
                   (int t1 - int (frequency_tracker_clock (fst (snd (run iface ys
                      (snd (StereoCallback iface msgLeft msgRight (node, e)))))))),
                 PublishMapData (fst (mapDataToMsg iface True False None
                   (snd (snd (run iface ys
                      (snd (StereoCallback iface msgLeft msgRight (node, e))))))))]
          \<and> fst (publishMapPointCloud iface
                   (snd (run iface ys (snd (StereoCallback iface msgLeft msgRight (node, e))))))
              = (if pc_data (fst (getCurrentMapPoints iface (snd (snd (run iface ys
                      (snd (StereoCallback iface msgLeft msgRight (node, e)))))))) = []
                 then []
                 else [PublishMapPoints (fst (getCurrentMapPoints iface (snd (snd (run iface ys
                      (snd (StereoCallback iface msgLeft msgRight (node, e))))))))]))"
proof -
  let ?c1 = "snd (StereoCallback iface msgLeft msgRight (node, e))"
  obtain node2 e2 where c2: "snd (run iface ys ?c1) = (node2, e2)"
    by (cases "snd (run iface ys ?c1)")
  have "isTracked node2" if "fst (trackStereo iface msgLeft msgRight e)"
  proof -
    from that have "isTracked (fst ?c1)"
      by (simp add: StereoCallback_node)
    from run_isTracked_mono [OF this, of iface ys] c2 show ?thesis
      by simp
  qed
  then show ?thesis
    using run_untracked_no_gated [of iface xs c] c2
    by (auto simp add: publishMapData_out publishMapPointCloud_out)
qed

theorem C2_tracking_flag_gates_publishers_witness:
  "\<not> isTracked (fst (snd (run toy_engine
        [MapDataTimer 1 2, MapPointsTimer, Stereo (toy_image []) (toy_image [2]),
         Odom toy_odom 3, MapPointsTimer]
        (direct_node, 0))))
   \<and> filter tracking_gated (fst (run toy_engine
        [MapDataTimer 1 2, MapPointsTimer, Stereo (toy_image []) (toy_image [2]),
         Odom toy_odom 3, MapPointsTimer]
        (direct_node, 0)) :: toy_map_data event list) = []
   \<and> fst (trackStereo toy_engine (toy_image [1]) (toy_image [2]) 0)
   \<and> isTracked (fst (snd (run toy_engine [Stereo (toy_image [3]) (toy_image [4])]
        (snd (StereoCallback toy_engine (toy_image [1]) (toy_image [2]) (direct_node, 0))))))
   \<and> fst (publishMapData toy_engine 10 11
        (snd (run toy_engine [Stereo (toy_image [3]) (toy_image [4])]
           (snd (StereoCallback toy_engine (toy_image [1]) (toy_image [2]) (direct_node, 0))))))
       = [InfoTrackingFrequency 2 10, PublishMapData (True, False, None, 2)]
   \<and> (fst (publishMapPointCloud toy_engine
        (snd (run toy_engine [Stereo (toy_image [3]) (toy_image [4])]
           (snd (StereoCallback toy_engine (toy_image [1]) (toy_image [2]) (direct_node, 0))))))
        :: toy_map_data event list)
       = [PublishMapPoints (toy_cloud 1)]"
proof -
  have before: "\<not> isTracked (fst (snd (run toy_engine
        [MapDataTimer 1 2, MapPointsTimer, Stereo (toy_image []) (toy_image [2]),
         Odom toy_odom 3, MapPointsTimer]
        (direct_node, 0))))"
    by (simp add: run_Cons callback_defs toy_defs)
  have after: "snd (run toy_engine [Stereo (toy_image [3]) (toy_image [4])]
        (snd (StereoCallback toy_engine (toy_image [1]) (toy_image [2]) (direct_node, 0))))
      = (direct_node\<lparr>isTracked := True,
                      tfMapOdom := default_TransformStamped
                        \<lparr>tf_header := \<lparr>stamp = 7, frame_id = ''camera''\<rparr>\<rparr>,
                      frequency_tracker_count := 2\<rparr>, 2)"
    by (simp add: run_Cons callback_defs toy_defs)
  have clock: "frequency_tracker_clock direct_node = 0"
    by (simp add: direct_node_def StereoSlamNode_ctor_def)
  show ?thesis
    using C2_tracking_flag_gates_publishers [of toy_engine
               "[MapDataTimer 1 2, MapPointsTimer, Stereo (toy_image []) (toy_image [2]),
                 Odom toy_odom 3, MapPointsTimer]" "(direct_node, 0)"
               "toy_image [1]" "toy_image [2]" 0 "[Stereo (toy_image [3]) (toy_image [4])]"
               direct_node 10 11]
          before after clock
    by (simp add: toy_engine_def toy_image_def toy_cloud_def)
qed

subsection \<open>The stereo callback\<close>

text \<open>
  Claim C3. When the tracking engine reports "not tracked" for a stereo pair, the callback
  sends nothing (so no transform is broadcast) and returns the node as it was: the tracking
  flag, the frequency counter and the cached transform keep their values. Only the engine,
  which was given the pair, may have changed.
\<close>

theorem C3_untracked_pair_changes_nothing:
  assumes "\<not> fst (trackStereo iface msgLeft msgRight e)"
  shows "StereoCallback iface msgLeft msgRight (node, e)
           = ([], node, snd (trackStereo iface msgLeft msgRight e))"
  using assms
  by (cases "trackStereo iface msgLeft msgRight e") (simp add: StereoCallback_def)

theorem C3_untracked_pair_changes_nothing_witness:
  "\<not> fst (trackStereo toy_engine (toy_image []) (toy_image [1]) 0)
   \<and> StereoCallback toy_engine (toy_image []) (toy_image [1]) (composed_node, 0)
       = ([], composed_node, 1)"
  using C3_untracked_pair_changes_nothing
          [of toy_engine "toy_image []" "toy_image [1]" 0 composed_node]
  by (simp add: toy_engine_def toy_image_def)

subsection \<open>The periodic publishers\<close>

text \<open>
  Claim C4. When the landmark-cloud timer fires with the tracking flag set, the cloud is
  fetched from the engine; if it has no data bytes nothing at all is sent, otherwise
  exactly that cloud is published on the map-points topic.
\<close>

theorem C4_empty_cloud_not_published:
  assumes "isTracked node"
  shows "fst (publishMapPointCloud iface (node, e)) =
           (if length (pc_data (fst (getCurrentMapPoints iface e))) = 0 then []
            else [PublishMapPoints (fst (getCurrentMapPoints iface e))])"
  using assms by (simp add: publishMapPointCloud_def split: prod.splits)

theorem C4_empty_cloud_not_published_witness:
  "isTracked (composed_node\<lparr>isTracked := True\<rparr>)
   \<and> (fst (publishMapPointCloud toy_engine (composed_node\<lparr>isTracked := True\<rparr>, 1))
        :: toy_map_data event list) = []
   \<and> (fst (publishMapPointCloud toy_engine (composed_node\<lparr>isTracked := True\<rparr>, 3))
        :: toy_map_data event list) = [PublishMapPoints (toy_cloud 2)]"
  using C4_empty_cloud_not_published [of "composed_node\<lparr>isTracked := True\<rparr>" toy_engine 1]
        C4_empty_cloud_not_published [of "composed_node\<lparr>isTracked := True\<rparr>" toy_engine 3]
  by (simp add: toy_engine_def toy_cloud_def)

text \<open>
  Claim C5. A firing of the map-data publisher with the tracking flag set leaves the
  frequency counter at zero, whatever it was, and reports the counter's value before the
  firing together with the time elapsed since the stored clock reading. Between two such
  firings the counter grows by one per tracked stereo pair: the second firing reports the
  number of pairs tracked since the first, over the time since the first's clock reading.
\<close>

theorem C5_counter_reset_and_report:
  fixes iface :: "('e, 'imu, 'odom, 'md, 'k, 'mp) ORBSLAM3Interface"
  assumes "isTracked node" and "\<forall>x \<in> set xs. \<not> is_MapDataTimer x"
  shows "frequency_tracker_count (fst (snd (publishMapData iface t1 t2 (node, e)))) = 0
       \<and> fst (publishMapData iface t1 t2 (node, e)) =
           [InfoTrackingFrequency (frequency_tracker_count node)
              (int t1 - int (frequency_tracker_clock node)),
            PublishMapData (fst (mapDataToMsg iface True False None e))]
       \<and> fst (publishMapData iface t3 t4
                 (snd (run iface xs (snd (publishMapData iface t1 t2 (node, e)))))) =
           [InfoTrackingFrequency
              (int (tracked_count iface xs (snd (publishMapData iface t1 t2 (node, e)))))
              (int t3 - int t2),
            PublishMapData (fst (mapDataToMsg iface True False None
              (snd (snd (run iface xs (snd (publishMapData iface t1 t2 (node, e))))))))]
       \<and> frequency_tracker_count (fst (snd (publishMapData iface t3 t4
            (snd (run iface xs (snd (publishMapData iface t1 t2 (node, e)))))))) = 0"
proof -
  let ?c1 = "snd (publishMapData iface t1 t2 (node, e))"
  obtain node2 e2 where c2: "snd (run iface xs ?c1) = (node2, e2)"
    by (cases "snd (run iface xs ?c1)")
  have first: "isTracked (fst ?c1)" "frequency_tracker_count (fst ?c1) = 0"
    "frequency_tracker_clock (fst ?c1) = t2"
    using assms(1) by (simp_all add: publishMapData_node)
  from run_isTracked_mono [OF first(1), of iface xs] c2 have "isTracked node2"
    by simp
  moreover from run_count [OF assms(2), of iface ?c1] first c2
  have "frequency_tracker_count node2 = int (tracked_count iface xs ?c1)"
    and "frequency_tracker_clock node2 = t2"
    by simp_all
  ultimately show ?thesis
    using assms(1) c2 by (simp add: publishMapData_node publishMapData_out)
qed

theorem C5_counter_reset_and_report_witness:
  "isTracked (direct_node\<lparr>isTracked := True, frequency_tracker_count := 7\<rparr>)
   \<and> \<not> is_MapDataTimer
         (Stereo (toy_image [1]) (toy_image [2]) :: (unit, TransformStamped, int list) input)
   \<and> \<not> is_MapDataTimer
         (Stereo (toy_image []) (toy_image [2]) :: (unit, TransformStamped, int list) input)
   \<and> \<not> is_MapDataTimer
         (Stereo (toy_image [3]) (toy_image [4]) :: (unit, TransformStamped, int list) input)
   \<and> frequency_tracker_count (fst (snd (publishMapData toy_engine 2000 2001
         (direct_node\<lparr>isTracked := True, frequency_tracker_count := 7\<rparr>, 3)))) = 0
   \<and> fst (publishMapData toy_engine 2000 2001
         (direct_node\<lparr>isTracked := True, frequency_tracker_count := 7\<rparr>, 3))
       = [InfoTrackingFrequency 7 2000, PublishMapData (True, False, None, 3)]
   \<and> fst (publishMapData toy_engine 5000 5001
         (snd (run toy_engine
            [Stereo (toy_image [1]) (toy_image [2]), Stereo (toy_image []) (toy_image [2]),
             Stereo (toy_image [3]) (toy_image [4])]
            (snd (publishMapData toy_engine 2000 2001
               (direct_node\<lparr>isTracked := True, frequency_tracker_count := 7\<rparr>, 3))))))
       = [InfoTrackingFrequency 2 2999, PublishMapData (True, False, None, 6)]"
proof -
  have count: "tracked_count toy_engine
            [Stereo (toy_image [1]) (toy_image [2]), Stereo (toy_image []) (toy_image [2]),
             Stereo (toy_image [3]) (toy_image [4])] c = 2" for c
    by (simp add: toy_engine_def toy_image_def)
  have engine: "snd (snd (run toy_engine
            [Stereo (toy_image [1]) (toy_image [2]), Stereo (toy_image []) (toy_image [2]),
             Stereo (toy_image [3]) (toy_image [4])]
            (snd (publishMapData toy_engine 2000 2001
               (direct_node\<lparr>isTracked := True, frequency_tracker_count := 7\<rparr>, 3))))) = 6"
    by (simp add: run_Cons callback_defs Let_def toy_engine_def toy_image_def)
  show ?thesis
    using C5_counter_reset_and_report
            [of "direct_node\<lparr>isTracked := True, frequency_tracker_count := 7\<rparr>"
                "[Stereo (toy_image [1]) (toy_image [2]), Stereo (toy_image []) (toy_image [2]),
                  Stereo (toy_image [3]) (toy_image [4])]" toy_engine 2000 2001 3 5000 5001]
          count engine
    by (simp add: toy_engine_def direct_node_def StereoSlamNode_ctor_def)
qed

subsection \<open>The odometry callback\<close>

text \<open>
  Claim C8. When no-odometry mode is on or transform publication is off, an odometry sample
  is dropped: the result does not depend on the sample, the engine and the cached
  transform are unchanged, and the only effect is the throttled warning, which is emitted
  when at least 4 seconds have passed since the last one emitted. Otherwise the sample is
  handed to the engine, and the transform it answers with becomes the cached transform.
  In any execution, two successive warnings are at least 4 seconds of clock reading apart.
\<close>

theorem C8_odometry_discarded_or_forwarded:
  fixes iface :: "('e, 'imu, 'odom, 'md, 'k, 'mp) ORBSLAM3Interface"
  shows "(no_odometry_mode node \<or> \<not> publish_tf node \<longrightarrow>
            OdomCallback iface msgOdom now (node, e) =
              (if warn_last_logged node + 4000000000 \<le> now
               then ([WarnOdometryIgnored now], node\<lparr>warn_last_logged := now\<rparr>, e)
               else ([], node, e))
            \<and> tfMapOdom (fst (snd (OdomCallback iface msgOdom now (node, e)))) = tfMapOdom node)
       \<and> (\<not> no_odometry_mode node \<and> publish_tf node \<longrightarrow>
            OdomCallback iface msgOdom now (node, e) =
              ([], node\<lparr>tfMapOdom := fst (getMapToOdomTF iface msgOdom (tfMapOdom node) e)\<rparr>,
               snd (getMapToOdomTF iface msgOdom (tfMapOdom node) e)))
       \<and> spaced (warn_last_logged (fst c)) (warn_times (fst (run iface xs c)))"
proof -
  have "spaced (warn_last_logged (fst c)) (warn_times (fst (run iface xs c)))"
    by (rule run_warn_spaced)
  then show ?thesis
    by (simp add: OdomCallback_def WARN_THROTTLE_def throttle_period_def split: prod.splits)
qed

theorem C8_odometry_discarded_or_forwarded_witness:
  "no_odometry_mode direct_node
   \<and> (OdomCallback toy_engine toy_odom 4000000000 (direct_node, 0)
        :: toy_map_data event list \<times> StereoSlamNode \<times> nat)
       = ([WarnOdometryIgnored 4000000000], direct_node\<lparr>warn_last_logged := 4000000000\<rparr>, 0)
   \<and> (OdomCallback toy_engine toy_odom 5000000000
          (direct_node\<lparr>warn_last_logged := 4000000000\<rparr>, 0)
        :: toy_map_data event list \<times> StereoSlamNode \<times> nat)
       = ([], direct_node\<lparr>warn_last_logged := 4000000000\<rparr>, 0)
   \<and> (\<not> no_odometry_mode composed_node \<and> publish_tf composed_node)
   \<and> (OdomCallback toy_engine toy_odom 5 (composed_node, 0)
        :: toy_map_data event list \<times> StereoSlamNode \<times> nat)
       = ([], composed_node\<lparr>tfMapOdom := toy_odom\<rparr>, 0)
   \<and> spaced 0 (warn_times (fst (run toy_engine
         [Odom toy_odom 4000000000, Odom toy_odom 5000000000, Odom toy_odom 8000000000]
         (direct_node, 0)) :: toy_map_data event list))
   \<and> warn_times (fst (run toy_engine
         [Odom toy_odom 4000000000, Odom toy_odom 5000000000, Odom toy_odom 8000000000]
         (direct_node, 0)) :: toy_map_data event list) = [4000000000, 8000000000]"
proof -
  have times: "warn_times (fst (run toy_engine
         [Odom toy_odom 4000000000, Odom toy_odom 5000000000, Odom toy_odom 8000000000]
         (direct_node, 0)) :: toy_map_data event list) = [4000000000, 8000000000]"
    by (simp add: run_Cons callback_defs direct_node_def StereoSlamNode_ctor_def
          default_Parameters_def)
  have modes: "no_odometry_mode direct_node" "\<not> no_odometry_mode composed_node"
    "publish_tf composed_node" "warn_last_logged direct_node = 0"
    by (simp_all add: direct_node_def composed_node_def StereoSlamNode_ctor_def
          default_Parameters_def)
  show ?thesis
    using C8_odometry_discarded_or_forwarded
            [of direct_node toy_engine toy_odom 4000000000 0 "(direct_node, 0)"
                "[Odom toy_odom 4000000000, Odom toy_odom 5000000000, Odom toy_odom 8000000000]"]
          C8_odometry_discarded_or_forwarded
            [of "direct_node\<lparr>warn_last_logged := 4000000000\<rparr>" toy_engine toy_odom
                5000000000 0 "(direct_node, 0)" "[]"]
          C8_odometry_discarded_or_forwarded
            [of composed_node toy_engine toy_odom 5 0 "(composed_node, 0)" "[]"]
          times modes
    by (simp add: toy_engine_def)
qed

subsection \<open>The services\<close>

text \<open>
  Claim C6. The map-data service asks the engine for a map-data message with the two
  filters of the request (the flag \<open>tracked_points\<close> and the keyframe ids
  \<open>kf_id_for_landmarks\<close>) and returns it as the response. It sends nothing, leaves the node
  as it is and never reads the tracking flag: the response is the same whatever the flag,
  in particular on a freshly constructed node.
\<close>

theorem C6_map_query_ignores_tracking_flag:
  "fst (getMapServer iface request (node, e)) =
     \<lparr>data = fst (mapDataToMsg iface False (tracked_points request)
                    (Some (kf_id_for_landmarks request)) e)\<rparr>
   \<and> fst (getMapServer iface request (node\<lparr>isTracked := b\<rparr>, e))
       = fst (getMapServer iface request (node, e))
   \<and> fst (getMapServer iface request (StereoSlamNode_ctor p t0, e))
       = fst (getMapServer iface request (node, e))
   \<and> fst (snd (getMapServer iface request (node, e))) = []
   \<and> fst (snd (snd (getMapServer iface request (node, e)))) = node"
  by (simp add: getMapServer_def split: prod.splits)

text \<open>
  Claim C7, as stated, fails. The engine returns one landmark whose world position is
  (1, 2, 3); the response does not hold that position but (3, -1, -2), the position after
  the engine's conversion from the ORB to the ROS axis convention.
\<close>

theorem C7_response_not_raw_world_position_counterexample:
  "fst (mapPointsVisibleFromPose toy_engine (pose toy_request) 1000 5 2 2) = [Vector3f 1 2 3]
   \<and> GetWorldPos toy_engine 2 (Vector3f 1 2 3) = Vector3f 1 2 3
   \<and> map_points (fst (getMapPointsInViewServer toy_engine toy_request 9 (direct_node, 2)))
       = [\<lparr>mp_position = Point 3 (- 1) (- 2)\<rparr>]
   \<and> map_points (fst (getMapPointsInViewServer toy_engine toy_request 9 (direct_node, 2)))
       \<noteq> [\<lparr>mp_position = Point 1 2 3\<rparr>]"
  by (simp add: getMapPointsInViewServer_def landmark_of_def toy_engine_def toy_request_def)

text \<open>
  Claim C7, amended. The landmarks-in-view service queries the engine with the pose of the
  request and the constants 1000, 5.0 and 2.0. The response has one entry per point that
  the engine returned, in the same order, and an entry holds the position only: the three
  coordinates that the engine's conversion \<^verbatim>\<open>vector3fORBToROS\<close> gives for the point's
  world position, which need not be the coordinates that the engine reports for it.
\<close>

theorem C7_landmarks_response:
  "map_points (fst (getMapPointsInViewServer iface request now (node, e))) =
     map (\<lambda>point.
            case vector3fORBToROS iface
                   (GetWorldPos iface
                      (snd (mapPointsVisibleFromPose iface (pose request) 1000 5 2 e)) point)
            of Vector3f a b c \<Rightarrow> \<lparr>mp_position = Point a b c\<rparr>)
       (fst (mapPointsVisibleFromPose iface (pose request) 1000 5 2 e))
   \<and> length (map_points (fst (getMapPointsInViewServer iface request now (node, e))))
       = length (fst (mapPointsVisibleFromPose iface (pose request) 1000 5 2 e))"
  by (simp add: getMapPointsInViewServer_def push_landmarks_map landmark_of_coordinates
           split: prod.splits)

theorem C7_landmarks_response_witness:
  "map_points (fst (getMapPointsInViewServer toy_engine toy_request 9 (direct_node, 3)))
     = [\<lparr>mp_position = Point 3 (- 1) (- 2)\<rparr>, \<lparr>mp_position = Point 3 (- 1) (- 2)\<rparr>]
   \<and> length (map_points (fst (getMapPointsInViewServer toy_engine toy_request 9
                                (direct_node, 3)))) = 2
   \<and> map_points (fst (getMapPointsInViewServer toy_engine toy_request 9 (direct_node, 1)))
     = []"
  using C7_landmarks_response [of toy_engine toy_request 9 direct_node 3]
        C7_landmarks_response [of toy_engine toy_request 9 direct_node 1]
  by (simp add: toy_engine_def toy_request_def numeral_3_eq_3)

text \<open>
  Claim C10. Every landmarks-in-view request makes the node publish two messages, whatever
  the node's state (tracking flag, configured global frame) and whatever the engine found
  (also for an empty list of points): the cloud built from the points, and the pose of the
  request stamped with the current time and the frame name "map".
\<close>

theorem C10_side_channel_unconditional:
  "fst (snd (getMapPointsInViewServer iface request now (node, e))) =
     [PublishVisibleLandmarks
        (MapPointsToPCL iface (snd (mapPointsVisibleFromPose iface (pose request) 1000 5 2 e))
           (fst (mapPointsVisibleFromPose iface (pose request) 1000 5 2 e))),
      PublishVisibleLandmarksPose
        \<lparr>ps_header = \<lparr>stamp = now, frame_id = ''map''\<rparr>, ps_pose = pose request\<rparr>]
   \<and> fst (snd (getMapPointsInViewServer iface request now
                  (node\<lparr>isTracked := b, global_frame := g\<rparr>, e)))
       = fst (snd (getMapPointsInViewServer iface request now (node, e)))"
  by (simp add: getMapPointsInViewServer_def split: prod.splits)

end
